theory Spec2Isabelle
  imports Complex_Main
begin

section \<open>Python values, exceptions and the console\<close>

text \<open>
  The commands of \<^verbatim>\<open>plugin.py\<close> take a keyword bag \<^verbatim>\<open>**kwargs: Any\<close>. The values
  modelled here are \<^verbatim>\<open>None\<close>, booleans, unbounded integers, floats and strings.
  A float is either a finite value, which is a rational number, or one of the three
  special values. A string is the UTF-8 encoding of a Python \<^verbatim>\<open>str\<close>, one \<open>char\<close> per
  byte; the emoji of the source's messages are written as their UTF-8 bytes. A byte
  sequence that is not well-formed UTF-8 stands for no Python string.
\<close>

datatype pyfloat = Finite rat | PosInf | NegInf | NaN

datatype pyval = PNone | PBool bool | PInt int | PFloat pyfloat | PStr string

datatype pyerror = ValueError | TypeError | OverflowError | KeyError | MarkupError

type_synonym kwargs = "string \<rightharpoonup> pyval"

text \<open>\<^verbatim>\<open>kwargs.get(key, default)\<close>\<close>

definition kwargs_get :: "kwargs \<Rightarrow> string \<Rightarrow> pyval \<Rightarrow> pyval" where
  "kwargs_get kwargs key dflt = (case kwargs key of None \<Rightarrow> dflt | Some v \<Rightarrow> v)"

text \<open>
  The console is the sequence of the arguments of \<^verbatim>\<open>Console.print\<close>, oldest first;
  each call appends one renderable. The markup tags stay in the text as the source
  writes them. \<open>console_print\<close> is the printing of a text made of the source's own
  markup and of decimal numbers, which the renderer accepts.
\<close>

type_synonym console = "string list"

definition console_print :: "console \<Rightarrow> string \<Rightarrow> console" where
  "console_print con s = con @ [s]"

subsection \<open>\<^verbatim>\<open>str(int)\<close>\<close>

fun nat_digits :: "nat \<Rightarrow> string" where
  "nat_digits n =
     (if n < 10 then [''0123456789'' ! n]
      else nat_digits (n div 10) @ [''0123456789'' ! (n mod 10)])"

declare nat_digits.simps [simp del]

definition py_str_int :: "int \<Rightarrow> string" where
  "py_str_int i = (if i < 0 then CHR ''-'' # nat_digits (nat (- i)) else nat_digits (nat i))"

subsection \<open>Code points\<close>

definition is_cont :: "char \<Rightarrow> bool" where
  "is_cont c = (0x80 \<le> (of_char c :: int) \<and> (of_char c :: int) < 0xC0)"

definition cont_bits :: "char \<Rightarrow> int" where
  "cont_bits c = of_char c - 0x80"

text \<open>
  The code points of a UTF-8 string, or \<open>None\<close> when it is not well formed (a stray or
  missing continuation byte, an overlong form, a surrogate, a value past U+10FFFF).
\<close>

fun utf8_decode :: "string \<Rightarrow> int list option" where
  "utf8_decode [] = Some []"
| "utf8_decode (c # cs) =
     (let b = (of_char c :: int) in
      if b < 0x80 then map_option ((#) b) (utf8_decode cs)
      else if b < 0xC2 then None
      else if b < 0xE0 then
        (case cs of
           c1 # r \<Rightarrow>
             if is_cont c1
             then map_option ((#) ((b - 0xC0) * 64 + cont_bits c1)) (utf8_decode r)
             else None
         | _ \<Rightarrow> None)
      else if b < 0xF0 then
        (case cs of
           c1 # c2 # r \<Rightarrow>
             (let cp = (b - 0xE0) * 4096 + cont_bits c1 * 64 + cont_bits c2 in
              if is_cont c1 \<and> is_cont c2 \<and> 0x800 \<le> cp \<and> \<not> (0xD800 \<le> cp \<and> cp < 0xE000)
              then map_option ((#) cp) (utf8_decode r)
              else None)
         | _ \<Rightarrow> None)
      else if b < 0xF5 then
        (case cs of
           c1 # c2 # c3 # r \<Rightarrow>
             (let cp = (b - 0xF0) * 262144 + cont_bits c1 * 4096 + cont_bits c2 * 64
                         + cont_bits c3 in
              if is_cont c1 \<and> is_cont c2 \<and> is_cont c3 \<and> 0x10000 \<le> cp \<and> cp < 0x110000
              then map_option ((#) cp) (utf8_decode r)
              else None)
         | _ \<Rightarrow> None)
      else None)"

subsection \<open>\<^verbatim>\<open>int(x)\<close>\<close>

text \<open>
  \<^verbatim>\<open>int\<close> of a string, in base ten: leading white space, an optional sign, decimal
  digits with single underscores between them, trailing white space; anything else is
  a \<^verbatim>\<open>ValueError\<close>. The white space is the ASCII white space of C and the white space
  of Unicode past U+007F. A digit is any character with a Unicode decimal value: the
  ten code points that follow each zero of \<open>decimal_zeros\<close> (Unicode 14.0, the
  database of CPython 3.11). More than \<open>int_max_str_digits\<close> digits, the interpreter's
  default limit, is a \<^verbatim>\<open>ValueError\<close> too.
\<close>

definition is_space :: "int \<Rightarrow> bool" where
  "is_space cp =
     (cp \<in> set [0x20, 0x09, 0x0A, 0x0B, 0x0C, 0x0D,
                0x85, 0xA0, 0x1680, 0x2000, 0x2001, 0x2002, 0x2003, 0x2004, 0x2005, 0x2006,
                0x2007, 0x2008, 0x2009, 0x200A, 0x2028, 0x2029, 0x202F, 0x205F, 0x3000])"

definition decimal_zeros :: "int list" where
  "decimal_zeros =
     [0x30, 0x660, 0x6F0, 0x7C0, 0x966, 0x9E6, 0xA66, 0xAE6,
      0xB66, 0xBE6, 0xC66, 0xCE6, 0xD66, 0xDE6, 0xE50, 0xED0,
      0xF20, 0x1040, 0x1090, 0x17E0, 0x1810, 0x1946, 0x19D0, 0x1A80,
      0x1A90, 0x1B50, 0x1BB0, 0x1C40, 0x1C50, 0xA620, 0xA8D0, 0xA900,
      0xA9D0, 0xA9F0, 0xAA50, 0xABF0, 0xFF10, 0x104A0, 0x10D30, 0x11066,
      0x110F0, 0x11136, 0x111D0, 0x112F0, 0x11450, 0x114D0, 0x11650, 0x116C0,
      0x11730, 0x118E0, 0x11950, 0x11C50, 0x11D50, 0x11DA0, 0x16A60, 0x16AC0,
      0x16B50, 0x1D7CE, 0x1D7D8, 0x1D7E2, 0x1D7EC, 0x1D7F6, 0x1E140, 0x1E2F0,
      0x1E950, 0x1FBF0]"

definition decimal_value :: "int \<Rightarrow> int option" where
  "decimal_value cp =
     (case filter (\<lambda>z. z \<le> cp \<and> cp < z + 10) decimal_zeros of
        [] \<Rightarrow> None
      | z # _ \<Rightarrow> Some (cp - z))"

definition is_digit :: "int \<Rightarrow> bool" where
  "is_digit cp = (decimal_value cp \<noteq> None)"

definition digit_value :: "int \<Rightarrow> int" where
  "digit_value cp = (case decimal_value cp of None \<Rightarrow> 0 | Some d \<Rightarrow> d)"

definition digits_value :: "int list \<Rightarrow> int" where
  "digits_value ds = foldl (\<lambda>acc c. 10 * acc + digit_value c) 0 ds"

definition int_max_str_digits :: int where
  "int_max_str_digits = 4300"

fun double_underscore :: "int list \<Rightarrow> bool" where
  "double_underscore (a # b # cs) =
     ((a = 0x5F \<and> b = 0x5F) \<or> double_underscore (b # cs))"
| "double_underscore _ = False"

definition split_sign :: "int list \<Rightarrow> bool \<times> int list" where
  "split_sign s =
     (case s of
        [] \<Rightarrow> (False, [])
      | c # cs \<Rightarrow>
          if c = 0x2B then (False, cs)
          else if c = 0x2D then (True, cs)
          else (False, s))"

definition py_int_cps :: "int list \<Rightarrow> pyerror + int" where
  "py_int_cps s =
     (let (neg, s2) = split_sign (dropWhile is_space s);
          body = takeWhile (\<lambda>c. is_digit c \<or> c = 0x5F) s2;
          rest = dropWhile (\<lambda>c. is_digit c \<or> c = 0x5F) s2;
          digits = filter is_digit body
      in if body = [] \<or> hd body = 0x5F \<or> last body = 0x5F
            \<or> double_underscore body \<or> \<not> list_all is_space rest
            \<or> int (length digits) > int_max_str_digits
         then Inl ValueError
         else let v = digits_value digits
              in Inr (if neg then - v else v))"

definition py_int_str :: "string \<Rightarrow> pyerror + int" where
  "py_int_str s =
     (case utf8_decode s of
        None \<Rightarrow> Inl ValueError
      | Some cps \<Rightarrow> py_int_cps cps)"

text \<open>
  \<^verbatim>\<open>int\<close> of a float truncates toward zero; of NaN it raises \<^verbatim>\<open>ValueError\<close>, of an
  infinity \<^verbatim>\<open>OverflowError\<close>. \<^verbatim>\<open>int(None)\<close> raises \<^verbatim>\<open>TypeError\<close>.
\<close>

definition py_trunc :: "rat \<Rightarrow> int" where
  "py_trunc r = (if 0 \<le> r then \<lfloor>r\<rfloor> else \<lceil>r\<rceil>)"

fun py_int :: "pyval \<Rightarrow> pyerror + int" where
  "py_int (PInt i) = Inr i"
| "py_int (PBool b) = Inr (if b then 1 else 0)"
| "py_int (PFloat (Finite r)) = Inr (py_trunc r)"
| "py_int (PFloat NaN) = Inl ValueError"
| "py_int (PFloat PosInf) = Inl OverflowError"
| "py_int (PFloat NegInf) = Inl OverflowError"
| "py_int (PStr s) = py_int_str s"
| "py_int PNone = Inl TypeError"

section \<open>The count command\<close>

text \<open>\<^verbatim>\<open>for i in range(1, max_num + 1): self.console.print(f"  {i}")\<close>\<close>

function count_loop :: "int \<Rightarrow> int \<Rightarrow> console \<Rightarrow> console" where
  "count_loop i stop con =
     (if i < stop then count_loop (i + 1) stop (console_print con (''  '' @ py_str_int i))
      else con)"
  by pat_completeness auto
termination
  by (relation "measure (\<lambda>(i, stop, con). nat (stop - i))") auto

declare count_loop.simps [simp del]

text \<open>
  \<^verbatim>\<open>CountCommand.execute\<close>. The result is the exception that leaves the method
  (\<open>Inl\<close>) or the returned value (\<open>Inr\<close>: \<^verbatim>\<open>None\<close> or the bound), together with the
  console afterwards.
  Only \<^verbatim>\<open>ValueError\<close> is caught by the handler.
\<close>

definition CountCommand_execute :: "kwargs \<Rightarrow> console \<Rightarrow> (pyerror + pyval) \<times> console" where
  "CountCommand_execute kwargs con =
     (case py_int (kwargs_get kwargs ''max'' (PInt 5)) of
        Inl err \<Rightarrow>
          if err = ValueError
          then (Inr PNone, console_print con ''[red]Please provide a valid number[/red]'')
          else (Inl err, con)
      | Inr max_num \<Rightarrow>
          if max_num < 1
          then (Inr PNone, console_print con ''[red]Please provide a positive number[/red]'')
          else
            let (con1, max_num) =
                  (if max_num > 100
                   then (console_print con
                           ''[yellow]That's a big number! Limiting to 100[/yellow]'', 100)
                   else (con, max_num));
                con2 = console_print con1
                         ([CHR 0xF0, CHR 0x9F, CHR 0x94, CHR 0xA2]
                            @ '' Counting to '' @ py_str_int max_num @ '':'');
                con3 = count_loop 1 (max_num + 1) con2;
                con4 = console_print con3
                         ([CHR 0xE2, CHR 0x9C, CHR 0x85]
                            @ '' Finished counting to '' @ py_str_int max_num @ ''!'')
            in (Inr (PInt max_num), con4))"

section \<open>The greet command\<close>

text \<open>
  An f-string field \<^verbatim>\<open>{name}\<close> renders the value with \<^verbatim>\<open>format(name, "")\<close>: a string
  stands for itself, an integer is written in decimal, and an integer of more than
  \<open>int_max_str_digits\<close> digits raises \<^verbatim>\<open>ValueError\<close>. The shortest round-trip
  rendering of a float belongs to the interpreter and is the parameter \<open>float_repr\<close>.
\<close>

definition py_format :: "(pyfloat \<Rightarrow> string) \<Rightarrow> pyval \<Rightarrow> pyerror + string" where
  "py_format float_repr v =
     (case v of
        PStr s \<Rightarrow> Inr s
      | PInt i \<Rightarrow>
          if int (length (nat_digits (nat \<bar>i\<bar>))) > int_max_str_digits then Inl ValueError
          else Inr (py_str_int i)
      | PBool b \<Rightarrow> Inr (if b then ''True'' else ''False'')
      | PNone \<Rightarrow> Inr ''None''
      | PFloat f \<Rightarrow> Inr (float_repr f))"

text \<open>
  \<^verbatim>\<open>GreetCommand.execute\<close>. The first \<^verbatim>\<open>print\<close> hands the renderer a text that holds
  the caller's name unescaped, as console markup. The renderer is the \<^verbatim>\<open>rich\<close> library,
  which is not part of the source; whether it rejects a text, raising \<^verbatim>\<open>MarkupError\<close>
  (a closing tag that matches no open tag is the plain case), is the parameter
  \<open>markup_error\<close>. Nothing in the method catches an exception, and the greeting is
  returned only after both calls of \<^verbatim>\<open>print\<close>.
\<close>

definition GreetCommand_execute ::
  "(string \<Rightarrow> bool) \<Rightarrow> (pyfloat \<Rightarrow> string) \<Rightarrow> kwargs \<Rightarrow> console
     \<Rightarrow> (pyerror + pyval) \<times> console" where
  "GreetCommand_execute markup_error float_repr kwargs con =
     (let name = kwargs_get kwargs ''name'' (PStr ''Friend'');
          style = kwargs_get kwargs ''style'' (PStr ''friendly'')
      in case py_format float_repr name of
           Inl err \<Rightarrow> (Inl err, con)
         | Inr who \<Rightarrow>
             let message =
                   (if style = PStr ''formal''
                    then ''Good day, '' @ who @ ''. I hope you are well.''
                    else if style = PStr ''casual''
                    then ''Hey '' @ who @ ''! What's up?''
                    else ''Hello there, '' @ who @ ''! Nice to see you!'');
                 text = [CHR 0xF0, CHR 0x9F, CHR 0xA4, CHR 0x96]
                          @ '' [bold blue]'' @ message @ ''[/bold blue]''
             in if markup_error text then (Inl MarkupError, con)
                else
                  let con1 = console_print con text;
                      con2 = console_print con1
                        ''[dim]This message is brought to you by the Example Plugin![/dim]''
                  in (Inr (PStr message), con2))"

section \<open>Commands as objects\<close>

text \<open>
  A command instance carries its class and the two attributes that \<^verbatim>\<open>BaseCommand\<close>
  sets, \<^verbatim>\<open>_name\<close> and \<^verbatim>\<open>_help\<close>.
\<close>

datatype command_class = GreetCommand | CountCommand

record command =
  cmd_class :: command_class
  cmd_name :: string
  cmd_help :: string

definition GreetCommand_init :: command where
  "GreetCommand_init =
     \<lparr>cmd_class = GreetCommand, cmd_name = ''greet'',
      cmd_help = ''Greet with a custom message from the example plugin''\<rparr>"

definition CountCommand_init :: command where
  "CountCommand_init =
     \<lparr>cmd_class = CountCommand, cmd_name = ''count'',
      cmd_help = ''Count from 1 to a specified number''\<rparr>"

definition get_name :: "command \<Rightarrow> string" where
  "get_name c = cmd_name c"

definition get_help :: "command \<Rightarrow> string" where
  "get_help c = cmd_help c"

text \<open>Dynamic dispatch of \<^verbatim>\<open>execute\<close> on the class of the instance.\<close>

definition execute ::
  "(string \<Rightarrow> bool) \<Rightarrow> (pyfloat \<Rightarrow> string) \<Rightarrow> command \<Rightarrow> kwargs \<Rightarrow> console
     \<Rightarrow> (pyerror + pyval) \<times> console" where
  "execute markup_error float_repr c kwargs con =
     (case cmd_class c of
        GreetCommand \<Rightarrow> GreetCommand_execute markup_error float_repr kwargs con
      | CountCommand \<Rightarrow> CountCommand_execute kwargs con)"

section \<open>The plugin and its registry\<close>

record PluginInfo =
  name :: string
  version :: string
  description :: string
  author :: string
  commands :: "string list"
  entry_point :: string

text \<open>
  Dictionaries are objects: the heap is the list of the dictionaries allocated so far,
  an address is a position in it, and allocation appends. A dictionary is an
  association list in insertion order with distinct keys. The plugin holds the address
  of its registry in the attribute \<^verbatim>\<open>_commands\<close>.
\<close>

type_synonym addr = nat

type_synonym registry = "(string \<times> command) list"

type_synonym heap = "registry list"

record Plugin =
  commands_ref :: addr

text \<open>\<^verbatim>\<open>Plugin.__init__\<close>: \<^verbatim>\<open>self._commands = {}\<close>\<close>

definition Plugin_init :: "heap \<Rightarrow> Plugin \<times> heap" where
  "Plugin_init h = (\<lparr>commands_ref = length h\<rparr>, h @ [[]])"

definition get_info :: "Plugin \<Rightarrow> heap \<Rightarrow> PluginInfo \<times> heap" where
  "get_info self h =
     (\<lparr>name = ''example-plugin'',
       version = ''1.0.0'',
       description = ''An example plugin demonstrating VoltMind's plugin system'',
       author = ''VoltMind Team'',
       commands = [''greet'', ''count''],
       entry_point = ''plugin.Plugin''\<rparr>, h)"

text \<open>\<^verbatim>\<open>initialize\<close> builds a new dictionary and rebinds the attribute to it.\<close>

definition initialize :: "Plugin \<Rightarrow> heap \<Rightarrow> Plugin \<times> heap" where
  "initialize self h =
     (self\<lparr>commands_ref := length h\<rparr>,
      h @ [[(''greet'', GreetCommand_init), (''count'', CountCommand_init)]])"

text \<open>\<^verbatim>\<open>get_commands\<close> returns the address of a new dictionary, \<^verbatim>\<open>self._commands.copy()\<close>.\<close>

definition get_commands :: "Plugin \<Rightarrow> heap \<Rightarrow> addr \<times> heap" where
  "get_commands self h = (length h, h @ [h ! commands_ref self])"

text \<open>The attribute of a live plugin always refers to an allocated dictionary.\<close>

definition plugin_ok :: "Plugin \<Rightarrow> heap \<Rightarrow> bool" where
  "plugin_ok self h = (commands_ref self < length h)"

subsection \<open>What a caller can do to a dictionary it holds\<close>

primrec dict_setitem :: "string \<Rightarrow> command \<Rightarrow> registry \<Rightarrow> registry" where
  "dict_setitem k v [] = [(k, v)]"
| "dict_setitem k v (e # es) =
     (if fst e = k then (k, v) # es else e # dict_setitem k v es)"

definition dict_delitem :: "string \<Rightarrow> registry \<Rightarrow> pyerror + registry" where
  "dict_delitem k d =
     (if k \<in> set (map fst d) then Inr (filter (\<lambda>e. fst e \<noteq> k) d) else Inl KeyError)"

datatype mutation = SetItem string command | DelItem string | Clear

text \<open>
  One mutation of the dictionary at address \<open>a\<close>: \<^verbatim>\<open>d[k] = v\<close>, \<^verbatim>\<open>del d[k]\<close> (a
  \<^verbatim>\<open>KeyError\<close> when the key is missing) or \<^verbatim>\<open>d.clear()\<close>.
\<close>

fun mutate :: "addr \<Rightarrow> mutation \<Rightarrow> heap \<Rightarrow> pyerror + heap" where
  "mutate a (SetItem k v) h = Inr (h[a := dict_setitem k v (h ! a)])"
| "mutate a (DelItem k) h =
     (case dict_delitem k (h ! a) of
        Inl err \<Rightarrow> Inl err
      | Inr d \<Rightarrow> Inr (h[a := d]))"
| "mutate a Clear h = Inr (h[a := []])"

text \<open>
  A caller's sequence of mutations; it ends at the first exception, with the heap as
  it is then.
\<close>

fun mutate_all :: "addr \<Rightarrow> mutation list \<Rightarrow> heap \<Rightarrow> pyerror option \<times> heap" where
  "mutate_all a [] h = (None, h)"
| "mutate_all a (m # ms) h =
     (case mutate a m h of
        Inl err \<Rightarrow> (Some err, h)
      | Inr h' \<Rightarrow> mutate_all a ms h')"

subsection \<open>Sequences of calls on a plugin\<close>

datatype call = Initialize | GetInfo | GetCommands

fun step :: "call \<Rightarrow> Plugin \<times> heap \<Rightarrow> Plugin \<times> heap" where
  "step Initialize (self, h) = initialize self h"
| "step GetInfo (self, h) = (self, snd (get_info self h))"
| "step GetCommands (self, h) = (self, snd (get_commands self h))"

definition run :: "call list \<Rightarrow> Plugin \<times> heap \<Rightarrow> Plugin \<times> heap" where
  "run cs s = foldl (\<lambda>s c. step c s) s cs"

text \<open>
  The contents of the plugin's own registry, and the contents of the dictionary that a
  call of \<^verbatim>\<open>get_commands\<close> in this state returns.
\<close>

definition registry_of :: "Plugin \<times> heap \<Rightarrow> registry" where
  "registry_of s = snd s ! commands_ref (fst s)"

definition returned_commands :: "Plugin \<times> heap \<Rightarrow> registry" where
  "returned_commands s = (case get_commands (fst s) (snd s) of (a, h') \<Rightarrow> h' ! a)"

text \<open>The names in the registry, and the names the descriptor declares.\<close>

definition registered_names :: "Plugin \<times> heap \<Rightarrow> string set" where
  "registered_names s = set (map fst (registry_of s))"

definition declared_names :: "Plugin \<times> heap \<Rightarrow> string set" where
  "declared_names s = set (commands (fst (get_info (fst s) (snd s))))"

section \<open>Coercion of strings\<close>

lemma utf8_decode_replicate_zero:
  "utf8_decode (replicate k (CHR ''0'')) = Some (replicate k 0x30)"
  by (induction k) simp_all

lemma decimal_value_zero_one: "decimal_value 0x30 = Some 0" "decimal_value 0x31 = Some 1"
  by (simp_all add: decimal_value_def decimal_zeros_def)

lemma digits_value_zeros:
  "foldl (\<lambda>acc c. 10 * acc + digit_value c) a (replicate k 0x30) = a * 10 ^ k"
  by (induction k arbitrary: a) (simp_all add: digit_value_def decimal_value_zero_one)

lemma no_double_underscore: "0x5F \<notin> set xs \<Longrightarrow> \<not> double_underscore xs"
  by (induction xs rule: double_underscore.induct) auto

text \<open>
  The digit limit: a one followed by \<open>k\<close> zeros is \<open>10 ^ k\<close> up to 4300 digits and a
  \<^verbatim>\<open>ValueError\<close> beyond.
\<close>

lemma py_int_one_zeros:
  "py_int (PStr (CHR ''1'' # replicate k (CHR ''0''))) =
     (if k < 4300 then Inr (10 ^ k) else Inl ValueError)"
proof -
  let ?cps = "0x31 # replicate k (0x30 :: int)"
  have dec: "utf8_decode (CHR ''1'' # replicate k (CHR ''0'')) = Some ?cps"
    by (simp add: utf8_decode_replicate_zero)
  have d0: "is_digit 0x30" and d1: "is_digit 0x31"
    by (simp_all add: is_digit_def decimal_value_zero_one)
  have alld: "filter is_digit ?cps = ?cps"
    by (simp add: d0 d1)
  have tw: "takeWhile (\<lambda>c. is_digit c \<or> c = 0x5F) ?cps = ?cps"
    by (simp add: takeWhile_eq_all_conv d0 d1)
  have dw: "dropWhile (\<lambda>c. is_digit c \<or> c = 0x5F) ?cps = []"
    by (simp add: d0 d1)
  have sp: "dropWhile is_space ?cps = ?cps"
    by (simp add: is_space_def)
  have sg: "split_sign ?cps = (False, ?cps)"
    by (simp add: split_sign_def)
  have nu: "\<not> double_underscore ?cps"
    by (rule no_double_underscore) auto
  have la: "last ?cps \<noteq> 0x5F"
    by (cases k) simp_all
  have one: "digit_value 0x31 = 1"
    by (simp add: digit_value_def decimal_value_zero_one)
  have val: "digits_value ?cps = 10 ^ k"
    by (simp add: digits_value_def one digits_value_zeros)
  have "py_int_cps ?cps =
          (if int (length ?cps) > int_max_str_digits then Inl ValueError
           else Inr (digits_value ?cps))"
    unfolding py_int_cps_def sp sg Let_def prod.case tw dw alld
    using nu la by simp
  then show ?thesis
    unfolding py_int.simps py_int_str_def dec option.case
    by (simp add: val int_max_str_digits_def)
qed

text \<open>
  Digits of other scripts and the white space of Unicode: the Arabic-Indic five, the
  fullwidth \<open>150\<close>, and a five between a no-break space and an em space.
\<close>

lemma py_int_unicode_examples:
  "py_int (PStr [CHR 0xD9, CHR 0xA5]) = Inr 5"
  "py_int (PStr [CHR 0xEF, CHR 0xBC, CHR 0x91, CHR 0xEF, CHR 0xBC, CHR 0x95,
                 CHR 0xEF, CHR 0xBC, CHR 0x90]) = Inr 150"
  "py_int (PStr [CHR 0xC2, CHR 0xA0, CHR ''5'', CHR 0xE2, CHR 0x80, CHR 0x83]) = Inr 5"
  "py_int (PStr '' +1_2 '') = Inr 12"
  "py_int (PStr ''1__2'') = Inl ValueError"
  "py_int (PStr ''- 2'') = Inl ValueError"
  "py_int (PStr ''7.9'') = Inl ValueError"
  by code_simp+

section \<open>Properties of the count command\<close>

lemma count_loop_lines:
  "count_loop i stop con = con @ map (\<lambda>k. ''  '' @ py_str_int k) [i..stop - 1]"
proof (induction i stop con rule: count_loop.induct)
  case (1 i stop con)
  show ?case
  proof (cases "i < stop")
    case True
    then have "[i..stop - 1] = i # [i + 1..stop - 1]"
      by (simp add: upto_rec1)
    with True 1 show ?thesis
      by (simp add: count_loop.simps [of i] console_print_def)
  next
    case False
    then show ?thesis
      by (simp add: count_loop.simps [of i])
  qed
qed

text \<open>
  Whatever the argument is, once it coerces to an integer \<open>n\<close> of at least one the
  command counts to \<open>min n 100\<close>, after a warning when \<open>n\<close> exceeds 100.
\<close>

lemma count_counts:
  assumes "py_int (kwargs_get kwargs ''max'' (PInt 5)) = Inr n" and "1 \<le> n"
  shows "CountCommand_execute kwargs con =
           (Inr (PInt (min n 100)),
            con @ (if n > 100
                   then [''[yellow]That's a big number! Limiting to 100[/yellow]'']
                   else [])
              @ [[CHR 0xF0, CHR 0x9F, CHR 0x94, CHR 0xA2]
                   @ '' Counting to '' @ py_str_int (min n 100) @ '':'']
              @ map (\<lambda>k. ''  '' @ py_str_int k) [1..min n 100]
              @ [[CHR 0xE2, CHR 0x9C, CHR 0x85]
                   @ '' Finished counting to '' @ py_str_int (min n 100) @ ''!''])"
  using assms
  by (simp add: CountCommand_execute_def count_loop_lines console_print_def min_def)

text \<open>
  Claim C1. For every integer \<open>max\<close> with \<open>1 \<le> max \<le> 100\<close> the count command
  returns \<open>max\<close> and appends to the console, in this order, the header line, one line
  for each integer from 1 to \<open>max\<close> (its decimal digits after two spaces), and the
  completion footer; nothing else is printed.
\<close>

theorem count_in_range:
  assumes "kwargs ''max'' = Some (PInt n)" and "1 \<le> n" and "n \<le> 100"
  shows "CountCommand_execute kwargs con =
           (Inr (PInt n),
            con @ [[CHR 0xF0, CHR 0x9F, CHR 0x94, CHR 0xA2]
                     @ '' Counting to '' @ py_str_int n @ '':'']
              @ map (\<lambda>k. ''  '' @ py_str_int k) [1..n]
              @ [[CHR 0xE2, CHR 0x9C, CHR 0x85]
                   @ '' Finished counting to '' @ py_str_int n @ ''!''])"
proof -
  from assms(1) have "py_int (kwargs_get kwargs ''max'' (PInt 5)) = Inr n"
    by (simp add: kwargs_get_def)
  from count_counts [OF this assms(2), of con] assms(3) show ?thesis
    by (simp add: min_def)
qed

text \<open>\<^verbatim>\<open>count(max=5)\<close> on an empty console: the header, the lines 1 to 5, the footer.\<close>

theorem count_in_range_witness:
  "CountCommand_execute [''max'' \<mapsto> PInt 5] [] =
     (Inr (PInt 5),
      [[CHR 0xF0, CHR 0x9F, CHR 0x94, CHR 0xA2] @ '' Counting to 5:'',
       ''  1'', ''  2'', ''  3'', ''  4'', ''  5'',
       [CHR 0xE2, CHR 0x9C, CHR 0x85] @ '' Finished counting to 5!''])"
proof -
  have "CountCommand_execute [''max'' \<mapsto> PInt 5] [] =
           (Inr (PInt 5),
            [] @ [[CHR 0xF0, CHR 0x9F, CHR 0x94, CHR 0xA2]
                    @ '' Counting to '' @ py_str_int 5 @ '':'']
              @ map (\<lambda>k. ''  '' @ py_str_int k) [1..5]
              @ [[CHR 0xE2, CHR 0x9C, CHR 0x85]
                   @ '' Finished counting to '' @ py_str_int 5 @ ''!''])"
    by (rule count_in_range) simp_all
  also have "\<dots> =
     (Inr (PInt 5),
      [[CHR 0xF0, CHR 0x9F, CHR 0x94, CHR 0xA2] @ '' Counting to 5:'',
       ''  1'', ''  2'', ''  3'', ''  4'', ''  5'',
       [CHR 0xE2, CHR 0x9C, CHR 0x85] @ '' Finished counting to 5!''])"
    by code_simp
  finally show ?thesis .
qed

text \<open>
  Claim C3. For every argument that coerces to an integer above 100 the count command
  prints the warning first, then counts from 1 to 100 only, and returns 100.
\<close>

theorem count_clamps:
  assumes "kwargs ''max'' = Some v" and "py_int v = Inr n" and "100 < n"
  shows "CountCommand_execute kwargs con =
           (Inr (PInt 100),
            con @ [''[yellow]That's a big number! Limiting to 100[/yellow]'',
                   [CHR 0xF0, CHR 0x9F, CHR 0x94, CHR 0xA2] @ '' Counting to 100:'']
              @ map (\<lambda>k. ''  '' @ py_str_int k) [1..100]
              @ [[CHR 0xE2, CHR 0x9C, CHR 0x85] @ '' Finished counting to 100!''])"
proof -
  have hundred: "py_str_int 100 = ''100''"
    by code_simp
  from assms(1,2) have coerced: "py_int (kwargs_get kwargs ''max'' (PInt 5)) = Inr n"
    by (simp add: kwargs_get_def)
  from assms(3) have "1 \<le> n" by simp
  from count_counts [OF coerced this, of con] assms(3) show ?thesis
    by (simp add: min_def hundred)
qed

text \<open>
  \<^verbatim>\<open>count(max="150")\<close> in fullwidth digits, \<^verbatim>\<open>count(max="1000")\<close>, and
  \<^verbatim>\<open>count(max=150)\<close>, where 100 is returned and 103 renderables are printed.
\<close>

theorem count_clamps_witness:
  "fst (CountCommand_execute
          [''max'' \<mapsto> PStr [CHR 0xEF, CHR 0xBC, CHR 0x91, CHR 0xEF, CHR 0xBC, CHR 0x95,
                            CHR 0xEF, CHR 0xBC, CHR 0x90]] []) = Inr (PInt 100)
   \<and> fst (CountCommand_execute [''max'' \<mapsto> PStr ''1000''] []) = Inr (PInt 100)
   \<and> fst (CountCommand_execute [''max'' \<mapsto> PInt 150] []) = Inr (PInt 100)
   \<and> length (snd (CountCommand_execute [''max'' \<mapsto> PInt 150] [])) = 103
   \<and> hd (snd (CountCommand_execute [''max'' \<mapsto> PInt 150] [])) =
       ''[yellow]That's a big number! Limiting to 100[/yellow]''
   \<and> snd (CountCommand_execute [''max'' \<mapsto> PInt 150] []) ! 100 = ''  99''
   \<and> snd (CountCommand_execute [''max'' \<mapsto> PInt 150] []) ! 101 = ''  100''"
proof -
  have "[''max'' \<mapsto> PInt 150] ''max'' = Some (PInt 150)" and "py_int (PInt 150) = Inr 150"
    and "(100::int) < 150"
    by simp_all
  from count_clamps [of "[''max'' \<mapsto> PInt 150]" "PInt 150" 150 "[]", OF this]
  have e: "CountCommand_execute [''max'' \<mapsto> PInt 150] [] =
           (Inr (PInt 100),
            [] @ [''[yellow]That's a big number! Limiting to 100[/yellow]'',
                   [CHR 0xF0, CHR 0x9F, CHR 0x94, CHR 0xA2] @ '' Counting to 100:'']
              @ map (\<lambda>k. ''  '' @ py_str_int k) [1..100]
              @ [[CHR 0xE2, CHR 0x9C, CHR 0x85] @ '' Finished counting to 100!''])"
    by simp
  have fw: "py_int (PStr [CHR 0xEF, CHR 0xBC, CHR 0x91, CHR 0xEF, CHR 0xBC, CHR 0x95,
                           CHR 0xEF, CHR 0xBC, CHR 0x90]) = Inr 150"
    by code_simp
  have "fst (CountCommand_execute
          [''max'' \<mapsto> PStr [CHR 0xEF, CHR 0xBC, CHR 0x91, CHR 0xEF, CHR 0xBC, CHR 0x95,
                            CHR 0xEF, CHR 0xBC, CHR 0x90]] []) = Inr (PInt 100)"
    using count_clamps
            [of "[''max'' \<mapsto> PStr [CHR 0xEF, CHR 0xBC, CHR 0x91, CHR 0xEF, CHR 0xBC, CHR 0x95,
                                   CHR 0xEF, CHR 0xBC, CHR 0x90]]"
                "PStr [CHR 0xEF, CHR 0xBC, CHR 0x91, CHR 0xEF, CHR 0xBC, CHR 0x95,
                      CHR 0xEF, CHR 0xBC, CHR 0x90]" 150 "[]"] fw
    by simp
  moreover have "fst (CountCommand_execute [''max'' \<mapsto> PStr ''1000''] []) = Inr (PInt 100)"
    using count_clamps [of "[''max'' \<mapsto> PStr ''1000'']" "PStr ''1000''" 1000 "[]"]
      py_int_one_zeros [of 3]
    by (simp add: eval_nat_numeral)
  moreover have "fst (CountCommand_execute [''max'' \<mapsto> PInt 150] []) = Inr (PInt 100)
   \<and> length (snd (CountCommand_execute [''max'' \<mapsto> PInt 150] [])) = 103
   \<and> hd (snd (CountCommand_execute [''max'' \<mapsto> PInt 150] [])) =
       ''[yellow]That's a big number! Limiting to 100[/yellow]''
   \<and> snd (CountCommand_execute [''max'' \<mapsto> PInt 150] []) ! 100 = ''  99''
   \<and> snd (CountCommand_execute [''max'' \<mapsto> PInt 150] []) ! 101 = ''  100''"
    unfolding e by code_simp
  ultimately show ?thesis by simp
qed

subsection \<open>Soft failure\<close>

text \<open>
  When the coercion of the argument raises \<^verbatim>\<open>ValueError\<close> or gives an integer below
  one, the command raises nothing, returns \<^verbatim>\<open>None\<close> and prints one notice: the "valid
  number" notice in the first case, the "positive number" notice in the second.
\<close>

lemma count_fails_softly:
  assumes "kwargs ''max'' = Some v"
    and "py_int v = Inl ValueError \<or> (\<exists>n. py_int v = Inr n \<and> n < 1)"
  shows "CountCommand_execute kwargs con =
           (Inr PNone,
            con @ [if py_int v = Inl ValueError
                   then ''[red]Please provide a valid number[/red]''
                   else ''[red]Please provide a positive number[/red]''])"
  using assms
  by (auto simp add: CountCommand_execute_def kwargs_get_def console_print_def)

text \<open>\<^verbatim>\<open>count(max=0)\<close>, \<^verbatim>\<open>count(max=-3)\<close> and \<^verbatim>\<open>count(max="abc")\<close>.\<close>

lemma count_fails_softly_examples:
  "CountCommand_execute [''max'' \<mapsto> PInt 0] [] =
     (Inr PNone, [''[red]Please provide a positive number[/red]''])
   \<and> CountCommand_execute [''max'' \<mapsto> PInt (- 3)] [] =
     (Inr PNone, [''[red]Please provide a positive number[/red]''])
   \<and> CountCommand_execute [''max'' \<mapsto> PStr ''abc''] [] =
     (Inr PNone, [''[red]Please provide a valid number[/red]''])"
proof -
  have abc: "py_int (PStr ''abc'') = Inl ValueError"
    by code_simp
  have "CountCommand_execute [''max'' \<mapsto> PInt 0] [] =
          (Inr PNone, [''[red]Please provide a positive number[/red]''])"
    using count_fails_softly [of "[''max'' \<mapsto> PInt 0]" "PInt 0" "[]"] by simp
  moreover have "CountCommand_execute [''max'' \<mapsto> PInt (- 3)] [] =
          (Inr PNone, [''[red]Please provide a positive number[/red]''])"
    using count_fails_softly [of "[''max'' \<mapsto> PInt (- 3)]" "PInt (- 3)" "[]"] by simp
  moreover have "CountCommand_execute [''max'' \<mapsto> PStr ''abc''] [] =
          (Inr PNone, [''[red]Please provide a valid number[/red]''])"
    using count_fails_softly [of "[''max'' \<mapsto> PStr ''abc'']" "PStr ''abc''" "[]"] abc
    by simp
  ultimately show ?thesis by simp
qed

text \<open>A numeral of more than 4300 digits is not a valid number either.\<close>

lemma count_digit_limit:
  assumes "4300 \<le> k"
  shows "CountCommand_execute [''max'' \<mapsto> PStr (CHR ''1'' # replicate k (CHR ''0''))] con =
           (Inr PNone, con @ [''[red]Please provide a valid number[/red]''])"
proof -
  from assms py_int_one_zeros [of k]
  have "py_int (PStr (CHR ''1'' # replicate k (CHR ''0''))) = Inl ValueError"
    by simp
  with count_fails_softly
         [of "[''max'' \<mapsto> PStr (CHR ''1'' # replicate k (CHR ''0''))]"
             "PStr (CHR ''1'' # replicate k (CHR ''0''))" con]
  show ?thesis by simp
qed

text \<open>
  Claim C2. The claim asks for the soft failure at every value whose integer coercion
  fails. The handler catches \<^verbatim>\<open>ValueError\<close> only: \<^verbatim>\<open>int(None)\<close> fails with
  \<^verbatim>\<open>TypeError\<close>, and \<^verbatim>\<open>count(max=None)\<close> raises it to the caller without printing any
  notice.
\<close>

theorem count_none_raises:
  "py_int PNone = Inl TypeError
   \<and> CountCommand_execute [''max'' \<mapsto> PNone] [] = (Inl TypeError, [])"
  by (simp add: CountCommand_execute_def kwargs_get_def)

section \<open>Exceptions that reach the caller\<close>

lemma count_result:
  "fst (CountCommand_execute kwargs con) =
     (case py_int (kwargs_get kwargs ''max'' (PInt 5)) of
        Inl err \<Rightarrow> if err = ValueError then Inr PNone else Inl err
      | Inr n \<Rightarrow> if n < 1 then Inr PNone else Inr (PInt (min n 100)))"
  by (simp add: CountCommand_execute_def min_def split: sum.splits prod.splits)

lemma py_int_str_error: "py_int_str s = Inl err \<Longrightarrow> err = ValueError"
  by (auto simp add: py_int_str_def py_int_cps_def Let_def
        split: option.splits prod.splits if_splits)

lemma py_int_raises:
  "py_int v = Inl err \<Longrightarrow> err \<noteq> ValueError \<Longrightarrow> v \<in> {PNone, PFloat PosInf, PFloat NegInf}"
  by (induction v rule: py_int.induct) (auto dest: py_int_str_error)

text \<open>
  The count command raises exactly when its argument is \<^verbatim>\<open>None\<close> or an infinite
  float; for every other value it returns \<^verbatim>\<open>None\<close> or a bound between 1 and 100.
\<close>

lemma count_no_exception:
  assumes "kwargs ''max'' = None \<or> (\<exists>v. kwargs ''max'' = Some v
             \<and> v \<noteq> PNone \<and> v \<noteq> PFloat PosInf \<and> v \<noteq> PFloat NegInf)"
  shows "fst (CountCommand_execute kwargs con) = Inr PNone
         \<or> (\<exists>n. fst (CountCommand_execute kwargs con) = Inr (PInt n) \<and> 1 \<le> n \<and> n \<le> 100)"
proof -
  let ?v = "kwargs_get kwargs ''max'' (PInt 5)"
  from assms have ok: "?v \<notin> {PNone, PFloat PosInf, PFloat NegInf}"
    by (auto simp add: kwargs_get_def)
  show ?thesis
  proof (cases "py_int ?v")
    case (Inl err)
    with ok py_int_raises [of ?v err] have "err = ValueError" by blast
    with Inl show ?thesis by (simp add: count_result)
  next
    case (Inr n)
    then show ?thesis by (simp add: count_result min_def)
  qed
qed

text \<open>
  Claim C5. The claim asks that no exception reaches the caller for a numeric or string
  \<^verbatim>\<open>max\<close>. A float infinity is a numeric value: \<^verbatim>\<open>int(float("inf"))\<close> raises
  \<^verbatim>\<open>OverflowError\<close>, the handler catches \<^verbatim>\<open>ValueError\<close> only, and the exception leaves
  \<^verbatim>\<open>CountCommand.execute\<close>.
\<close>

theorem count_infinity_raises:
  "py_int (PFloat PosInf) = Inl OverflowError
   \<and> CountCommand_execute [''max'' \<mapsto> PFloat PosInf] [] = (Inl OverflowError, [])"
  by (simp add: CountCommand_execute_def kwargs_get_def)

section \<open>Floats as bounds\<close>

text \<open>\<open>py_trunc\<close> is truncation toward zero: it never moves away from zero, by less than one.\<close>

lemma py_trunc_toward_zero:
  "\<bar>of_int (py_trunc r)\<bar> \<le> \<bar>r\<bar> \<and> \<bar>r - of_int (py_trunc r)\<bar> < 1"
  unfolding py_trunc_def by (simp; linarith)

text \<open>
  Claim C10. A finite float \<open>r\<close> of at least one is not rejected: the command counts to
  the integer part of \<open>r\<close>, which is what truncation toward zero gives for a positive
  value, clamped at 100 (with the warning), and returns that bound.
\<close>

theorem count_truncates:
  assumes "kwargs ''max'' = Some (PFloat (Finite r))" and "1 \<le> r"
  shows "CountCommand_execute kwargs con =
           (Inr (PInt (min \<lfloor>r\<rfloor> 100)),
            con @ (if \<lfloor>r\<rfloor> > 100
                   then [''[yellow]That's a big number! Limiting to 100[/yellow]'']
                   else [])
              @ [[CHR 0xF0, CHR 0x9F, CHR 0x94, CHR 0xA2]
                   @ '' Counting to '' @ py_str_int (min \<lfloor>r\<rfloor> 100) @ '':'']
              @ map (\<lambda>k. ''  '' @ py_str_int k) [1..min \<lfloor>r\<rfloor> 100]
              @ [[CHR 0xE2, CHR 0x9C, CHR 0x85]
                   @ '' Finished counting to '' @ py_str_int (min \<lfloor>r\<rfloor> 100) @ ''!''])"
proof -
  from assms(2) have t: "py_trunc r = \<lfloor>r\<rfloor>" and one: "1 \<le> \<lfloor>r\<rfloor>"
    by (simp_all add: py_trunc_def le_floor_iff)
  from assms(1) t have "py_int (kwargs_get kwargs ''max'' (PInt 5)) = Inr \<lfloor>r\<rfloor>"
    by (simp add: kwargs_get_def)
  from count_counts [OF this one, of con]
  show ?thesis .
qed

text \<open>
  \<^verbatim>\<open>count(max=7.9)\<close>; the double nearest to 7.9 is
  \<open>4447304632028365 / 562949953421312\<close>. The command counts to 7 and returns 7.
\<close>

theorem count_truncates_witness:
  "CountCommand_execute
     [''max'' \<mapsto> PFloat (Finite (4447304632028365 / 562949953421312))] [] =
     (Inr (PInt 7),
      [[CHR 0xF0, CHR 0x9F, CHR 0x94, CHR 0xA2] @ '' Counting to 7:'',
       ''  1'', ''  2'', ''  3'', ''  4'', ''  5'', ''  6'', ''  7'',
       [CHR 0xE2, CHR 0x9C, CHR 0x85] @ '' Finished counting to 7!''])"
proof -
  let ?r = "4447304632028365 / 562949953421312 :: rat"
  have fl: "\<lfloor>?r\<rfloor> = 7"
    by code_simp
  have "[''max'' \<mapsto> PFloat (Finite ?r)] ''max'' = Some (PFloat (Finite ?r))" and "1 \<le> ?r"
    by simp_all
  from count_truncates [of "[''max'' \<mapsto> PFloat (Finite ?r)]" ?r "[]", OF this]
  have "CountCommand_execute [''max'' \<mapsto> PFloat (Finite ?r)] [] =
           (Inr (PInt (min \<lfloor>?r\<rfloor> 100)),
            [] @ (if \<lfloor>?r\<rfloor> > 100
                   then [''[yellow]That's a big number! Limiting to 100[/yellow]'']
                   else [])
              @ [[CHR 0xF0, CHR 0x9F, CHR 0x94, CHR 0xA2]
                   @ '' Counting to '' @ py_str_int (min \<lfloor>?r\<rfloor> 100) @ '':'']
              @ map (\<lambda>k. ''  '' @ py_str_int k) [1..min \<lfloor>?r\<rfloor> 100]
              @ [[CHR 0xE2, CHR 0x9C, CHR 0x85]
                   @ '' Finished counting to '' @ py_str_int (min \<lfloor>?r\<rfloor> 100) @ ''!''])"
    .
  also have "\<dots> =
     (Inr (PInt 7),
      [[CHR 0xF0, CHR 0x9F, CHR 0x94, CHR 0xA2] @ '' Counting to 7:'',
       ''  1'', ''  2'', ''  3'', ''  4'', ''  5'', ''  6'', ''  7'',
       [CHR 0xE2, CHR 0x9C, CHR 0x85] @ '' Finished counting to 7!''])"
    unfolding fl by code_simp
  finally show ?thesis .
qed

section \<open>Properties of the greet command\<close>

text \<open>
  When the name renders and the renderer accepts the first text, the command prints
  the two texts and returns the template of the style with the name in place: the
  formal template for \<^verbatim>\<open>"formal"\<close>, the casual one for \<^verbatim>\<open>"casual"\<close>, the friendly one
  for every other style value.
\<close>

lemma greet_template:
  assumes "py_format float_repr (kwargs_get kwargs ''name'' (PStr ''Friend'')) = Inr who"
    and "style = kwargs_get kwargs ''style'' (PStr ''friendly'')"
    and "message =
           (if style = PStr ''formal'' then ''Good day, '' @ who @ ''. I hope you are well.''
            else if style = PStr ''casual'' then ''Hey '' @ who @ ''! What's up?''
            else ''Hello there, '' @ who @ ''! Nice to see you!'')"
    and "\<not> markup_error ([CHR 0xF0, CHR 0x9F, CHR 0xA4, CHR 0x96] @ '' [bold blue]'' @ message @ ''[/bold blue]'')"
  shows "GreetCommand_execute markup_error float_repr kwargs con =
           (Inr (PStr message),
            con @ [[CHR 0xF0, CHR 0x9F, CHR 0xA4, CHR 0x96] @ '' [bold blue]'' @ message @ ''[/bold blue]'',
                   ''[dim]This message is brought to you by the Example Plugin![/dim]''])"
  using assms(1,4) unfolding assms(2,3)
  by (simp add: GreetCommand_execute_def Let_def console_print_def)

text \<open>When the renderer rejects the first text, nothing is printed or returned.\<close>

lemma greet_raises:
  assumes "py_format float_repr (kwargs_get kwargs ''name'' (PStr ''Friend'')) = Inr who"
    and "style = kwargs_get kwargs ''style'' (PStr ''friendly'')"
    and "message =
           (if style = PStr ''formal'' then ''Good day, '' @ who @ ''. I hope you are well.''
            else if style = PStr ''casual'' then ''Hey '' @ who @ ''! What's up?''
            else ''Hello there, '' @ who @ ''! Nice to see you!'')"
    and "markup_error ([CHR 0xF0, CHR 0x9F, CHR 0xA4, CHR 0x96] @ '' [bold blue]'' @ message @ ''[/bold blue]'')"
  shows "GreetCommand_execute markup_error float_repr kwargs con = (Inl MarkupError, con)"
  using assms(1,4) unfolding assms(2,3)
  by (simp add: GreetCommand_execute_def Let_def)

text \<open>How a name is rendered: text as it is, other values as \<^verbatim>\<open>str\<close> writes them.\<close>

lemma py_format_examples:
  "py_format float_repr (PStr ''Ada'') = Inr ''Ada''
   \<and> py_format float_repr (PInt 42) = Inr ''42''
   \<and> py_format float_repr (PInt (- 7)) = Inr ''-7''
   \<and> py_format float_repr (PBool True) = Inr ''True''
   \<and> py_format float_repr (PBool False) = Inr ''False''
   \<and> py_format float_repr PNone = Inr ''None''"
proof -
  have "nat_digits 42 = ''42''" and "nat_digits 7 = ''7''"
    by code_simp+
  then show ?thesis
    by (simp add: py_format_def py_str_int_def int_max_str_digits_def)
qed

text \<open>
  The three styles, an unrecognized style and no arguments at all, on a renderer that
  accepts the texts.
\<close>

lemma greet_template_examples:
  assumes "\<And>t. \<not> markup_error t"
  shows "fst (GreetCommand_execute markup_error float_repr
            [''name'' \<mapsto> PStr ''Ada'', ''style'' \<mapsto> PStr ''formal''] []) =
       Inr (PStr ''Good day, Ada. I hope you are well.'')"
    and "fst (GreetCommand_execute markup_error float_repr
            [''name'' \<mapsto> PStr ''Ada'', ''style'' \<mapsto> PStr ''casual''] []) =
       Inr (PStr ''Hey Ada! What's up?'')"
    and "fst (GreetCommand_execute markup_error float_repr
            [''name'' \<mapsto> PStr ''Ada'', ''style'' \<mapsto> PStr ''friendly''] []) =
       Inr (PStr ''Hello there, Ada! Nice to see you!'')"
    and "fst (GreetCommand_execute markup_error float_repr
            [''name'' \<mapsto> PStr ''Ada'', ''style'' \<mapsto> PStr ''pirate''] []) =
       Inr (PStr ''Hello there, Ada! Nice to see you!'')"
    and "fst (GreetCommand_execute markup_error float_repr Map.empty []) =
       Inr (PStr ''Hello there, Friend! Nice to see you!'')"
  using assms
  by (simp_all add: GreetCommand_execute_def Let_def kwargs_get_def py_format_def)

text \<open>
  A name that is an integer of more than 4300 digits does not render: the f-string
  raises \<^verbatim>\<open>ValueError\<close> before anything is printed.
\<close>

lemma nat_digits_length: "10 ^ k \<le> n \<Longrightarrow> k < length (nat_digits n)"
proof (induction k arbitrary: n)
  case 0
  show ?case by (simp add: nat_digits.simps [of n])
next
  case (Suc k)
  have "(10::nat) \<le> 10 ^ Suc k"
    using power_increasing [of 1 "Suc k" "10::nat"] by simp
  from this Suc.prems have ten: "10 \<le> n"
    by (rule order_trans)
  from Suc.prems have "10 ^ k \<le> n div 10"
    by (simp add: less_eq_div_iff_mult_less_eq mult.commute)
  from Suc.IH [OF this] ten show ?case
    by (simp add: nat_digits.simps [of n])
qed

lemma nat_abs_power: "(10::int) ^ k \<le> \<bar>i\<bar> \<Longrightarrow> (10::nat) ^ k \<le> nat \<bar>i\<bar>"
  by (simp add: le_nat_iff)

lemma py_format_int_limit:
  assumes "10 ^ 4300 \<le> \<bar>i\<bar>"
  shows "py_format float_repr (PInt i) = Inl ValueError"
proof -
  from assms have "(10::nat) ^ 4300 \<le> nat \<bar>i\<bar>"
    by (rule nat_abs_power)
  then have "4300 < length (nat_digits (nat \<bar>i\<bar>))"
    by (rule nat_digits_length)
  then show ?thesis
    by (simp add: py_format_def int_max_str_digits_def)
qed

lemma greet_huge_int:
  assumes "kwargs ''name'' = Some (PInt i)" and "10 ^ 4300 \<le> \<bar>i\<bar>"
  shows "GreetCommand_execute markup_error float_repr kwargs con = (Inl ValueError, con)"
  using assms(1) py_format_int_limit [OF assms(2), of float_repr]
  by (simp add: GreetCommand_execute_def kwargs_get_def)

text \<open>
  Claim C4. The claim asks for the template of the style at every name. At the name
  \<^verbatim>\<open>"[/red]"\<close> the text handed to the renderer is the one below, and the command
  returns the friendly greeting only if the renderer accepts it; it holds a closing
  tag that matches no open tag, which \<^verbatim>\<open>rich\<close> rejects, so the call ends in
  \<^verbatim>\<open>MarkupError\<close> with nothing returned.
\<close>

theorem greet_markup_name:
  "GreetCommand_execute markup_error float_repr [''name'' \<mapsto> PStr ''[/red]''] con =
     (if markup_error
           ([CHR 0xF0, CHR 0x9F, CHR 0xA4, CHR 0x96]
              @ '' [bold blue]Hello there, [/red]! Nice to see you![/bold blue]'')
      then (Inl MarkupError, con)
      else (Inr (PStr ''Hello there, [/red]! Nice to see you!''),
            con @ [[CHR 0xF0, CHR 0x9F, CHR 0xA4, CHR 0x96]
                     @ '' [bold blue]Hello there, [/red]! Nice to see you![/bold blue]'',
                   ''[dim]This message is brought to you by the Example Plugin![/dim]'']))"
  by (simp add: GreetCommand_execute_def Let_def kwargs_get_def py_format_def
        console_print_def)

section \<open>Properties of the plugin\<close>

lemma run_snoc: "run (cs @ [c]) s = step c (run cs s)"
  by (simp add: run_def)

lemma step_plugin_ok:
  assumes "plugin_ok (fst s) (snd s)"
  shows "plugin_ok (fst (step c s)) (snd (step c s))"
  using assms
  by (cases s; cases c) (simp_all add: plugin_ok_def initialize_def get_info_def get_commands_def)

lemma run_plugin_ok: "plugin_ok (fst (run cs (Plugin_init h0))) (snd (run cs (Plugin_init h0)))"
proof (induction cs rule: rev_induct)
  case Nil
  show ?case by (simp add: run_def Plugin_init_def plugin_ok_def)
next
  case (snoc c cs)
  then show ?case by (simp add: run_snoc step_plugin_ok)
qed

lemma step_registry:
  assumes "plugin_ok (fst s) (snd s)"
  shows "registry_of (step c s) =
           (if c = Initialize
            then [(''greet'', GreetCommand_init), (''count'', CountCommand_init)]
            else registry_of s)"
  using assms
  by (cases s; cases c)
     (simp_all add: plugin_ok_def registry_of_def initialize_def get_info_def
        get_commands_def nth_append)

text \<open>The registry is empty until the first \<^verbatim>\<open>initialize\<close> and holds the two commands after.\<close>

lemma registry_run:
  "registry_of (run cs (Plugin_init h0)) =
     (if Initialize \<in> set cs
      then [(''greet'', GreetCommand_init), (''count'', CountCommand_init)]
      else [])"
proof (induction cs rule: rev_induct)
  case Nil
  show ?case by (simp add: run_def Plugin_init_def registry_of_def)
next
  case (snoc c cs)
  then show ?case by (simp add: run_snoc step_registry run_plugin_ok)
qed

lemma returned_commands_registry: "returned_commands s = registry_of s"
  by (simp add: returned_commands_def registry_of_def get_commands_def)

text \<open>
  Claim C6. On a plugin constructed on any heap, after any calls none of which is
  \<^verbatim>\<open>initialize\<close>, \<^verbatim>\<open>get_commands\<close> returns an empty mapping. After calls one of which is
  \<^verbatim>\<open>initialize\<close>, it returns a mapping whose keys are exactly \<^verbatim>\<open>"greet"\<close> and \<^verbatim>\<open>"count"\<close>,
  bound to an instance of \<^verbatim>\<open>GreetCommand\<close> and an instance of \<^verbatim>\<open>CountCommand\<close>.
\<close>

theorem commands_before_after_initialize:
  "(Initialize \<notin> set cs \<longrightarrow> returned_commands (run cs (Plugin_init h0)) = [])
   \<and> (Initialize \<in> set cs \<longrightarrow>
        set (map fst (returned_commands (run cs (Plugin_init h0)))) = {''greet'', ''count''}
        \<and> map_of (returned_commands (run cs (Plugin_init h0))) ''greet'' = Some GreetCommand_init
        \<and> map_of (returned_commands (run cs (Plugin_init h0))) ''count'' = Some CountCommand_init
        \<and> cmd_class GreetCommand_init = GreetCommand
        \<and> cmd_class CountCommand_init = CountCommand)"
  by (simp add: returned_commands_registry registry_run GreetCommand_init_def
        CountCommand_init_def insert_commute)

theorem commands_before_after_initialize_witness:
  "returned_commands (run [] (Plugin_init [])) = []
   \<and> set (map fst (returned_commands (run [Initialize] (Plugin_init [])))) = {''greet'', ''count''}
   \<and> map_of (returned_commands (run [Initialize] (Plugin_init []))) ''greet'' = Some GreetCommand_init
   \<and> map_of (returned_commands (run [Initialize] (Plugin_init []))) ''count'' = Some CountCommand_init"
  using commands_before_after_initialize [of "[]" "[]"]
    commands_before_after_initialize [of "[Initialize]" "[]"]
  by simp

subsection \<open>The returned mapping is a copy\<close>

lemma mutate_frame:
  assumes "mutate a m h = Inr h'"
  shows "length h' = length h \<and> (\<forall>b. b \<noteq> a \<longrightarrow> h' ! b = h ! b)"
  using assms by (cases m) (auto split: sum.splits)

lemma mutate_all_frame:
  assumes "mutate_all a ms h = (r, h')"
  shows "length h' = length h \<and> (\<forall>b. b \<noteq> a \<longrightarrow> h' ! b = h ! b)"
  using assms
proof (induction ms arbitrary: h)
  case Nil
  then show ?case by simp
next
  case (Cons m ms)
  show ?case
  proof (cases "mutate a m h")
    case (Inl err)
    with Cons.prems show ?thesis by simp
  next
    case (Inr h1)
    with Cons.prems have "mutate_all a ms h1 = (r, h')" by simp
    from Cons.IH [OF this] mutate_frame [OF Inr] show ?thesis by simp
  qed
qed

text \<open>
  Claim C7. In every state of a live plugin, \<^verbatim>\<open>get_commands\<close> returns a dictionary at
  an address other than the registry's, holding the registry's contents. Whatever
  sequence of additions, replacements, removals and clearings the caller applies to
  it, the registry keeps its contents, and a later \<^verbatim>\<open>get_commands\<close> returns what the
  first one returned.
\<close>

theorem get_commands_defensive_copy:
  assumes "plugin_ok self h"
    and "get_commands self h = (a, h1)"
    and "mutate_all a ms h1 = (r, h2)"
  shows "a \<noteq> commands_ref self
         \<and> h1 ! a = registry_of (self, h)
         \<and> registry_of (self, h2) = registry_of (self, h)
         \<and> returned_commands (self, h2) = returned_commands (self, h)"
proof -
  from assms(1,2) have a: "a = length h" and h1: "h1 = h @ [h ! commands_ref self]"
    and neq: "commands_ref self \<noteq> a" and lt: "commands_ref self < length h"
    by (auto simp add: get_commands_def plugin_ok_def)
  from mutate_all_frame [OF assms(3)] neq have "h2 ! commands_ref self = h1 ! commands_ref self"
    by blast
  with h1 lt have "h2 ! commands_ref self = h ! commands_ref self"
    by (simp add: nth_append)
  with neq a h1 show ?thesis
    by (simp add: returned_commands_registry registry_of_def)
qed

text \<open>
  An initialized plugin whose registry is at address 1: the caller adds a key to the
  copy, deletes \<^verbatim>\<open>"greet"\<close>, replaces \<^verbatim>\<open>"count"\<close> and clears it.
\<close>

theorem get_commands_defensive_copy_witness:
  "registry_of (\<lparr>commands_ref = 1\<rparr>,
       snd (mutate_all 2
              [SetItem ''extra'' CountCommand_init, DelItem ''greet'',
               SetItem ''count'' GreetCommand_init, Clear]
              (snd (get_commands \<lparr>commands_ref = 1\<rparr>
                 [[], [(''greet'', GreetCommand_init), (''count'', CountCommand_init)]])))) =
     [(''greet'', GreetCommand_init), (''count'', CountCommand_init)]
   \<and> returned_commands (\<lparr>commands_ref = 1\<rparr>,
       snd (mutate_all 2
              [SetItem ''extra'' CountCommand_init, DelItem ''greet'',
               SetItem ''count'' GreetCommand_init, Clear]
              (snd (get_commands \<lparr>commands_ref = 1\<rparr>
                 [[], [(''greet'', GreetCommand_init), (''count'', CountCommand_init)]])))) =
     [(''greet'', GreetCommand_init), (''count'', CountCommand_init)]"
proof -
  let ?h = "[[], [(''greet'', GreetCommand_init), (''count'', CountCommand_init)]]"
  let ?ms = "[SetItem ''extra'' CountCommand_init, DelItem ''greet'',
              SetItem ''count'' GreetCommand_init, Clear]"
  have ok: "plugin_ok \<lparr>commands_ref = 1\<rparr> ?h"
    by (simp add: plugin_ok_def)
  have copy: "get_commands \<lparr>commands_ref = 1\<rparr> ?h =
                (2, ?h @ [[(''greet'', GreetCommand_init), (''count'', CountCommand_init)]])"
    by (simp add: get_commands_def)
  have mutated: "mutate_all 2 ?ms
                   (?h @ [[(''greet'', GreetCommand_init), (''count'', CountCommand_init)]]) =
                 (None, ?h @ [[]])"
    by (simp add: dict_delitem_def)
  have before: "registry_of (\<lparr>commands_ref = 1\<rparr>, ?h) =
                  [(''greet'', GreetCommand_init), (''count'', CountCommand_init)]"
    by (simp add: registry_of_def)
  from get_commands_defensive_copy [OF ok copy mutated]
  have "registry_of (\<lparr>commands_ref = 1\<rparr>, ?h @ [[]]) = registry_of (\<lparr>commands_ref = 1\<rparr>, ?h)"
    and "returned_commands (\<lparr>commands_ref = 1\<rparr>, ?h @ [[]]) =
         returned_commands (\<lparr>commands_ref = 1\<rparr>, ?h)"
    by simp_all
  moreover have "snd (mutate_all 2 ?ms (snd (get_commands \<lparr>commands_ref = 1\<rparr> ?h))) = ?h @ [[]]"
    by (simp only: copy mutated snd_conv)
  ultimately show ?thesis
    using before by (simp add: returned_commands_registry)
qed

subsection \<open>The descriptor\<close>

text \<open>
  Claim C8. \<^verbatim>\<open>get_info\<close> returns the same descriptor in any two states, in particular
  before and after \<^verbatim>\<open>initialize\<close>: name \<^verbatim>\<open>"example-plugin"\<close>, version \<^verbatim>\<open>"1.0.0"\<close>, author
  \<^verbatim>\<open>"VoltMind Team"\<close>, commands \<^verbatim>\<open>["greet", "count"]\<close>, entry point \<^verbatim>\<open>"plugin.Plugin"\<close>;
  and it leaves the plugin and the heap as they were.
\<close>

theorem get_info_static:
  "fst (get_info self h) = fst (get_info self' h')
   \<and> fst (get_info (fst (initialize self h)) (snd (initialize self h))) = fst (get_info self h)
   \<and> name (fst (get_info self h)) = ''example-plugin''
   \<and> version (fst (get_info self h)) = ''1.0.0''
   \<and> author (fst (get_info self h)) = ''VoltMind Team''
   \<and> commands (fst (get_info self h)) = [''greet'', ''count'']
   \<and> entry_point (fst (get_info self h)) = ''plugin.Plugin''
   \<and> snd (get_info self h) = h
   \<and> step GetInfo (self, h) = (self, h)"
  by (simp add: get_info_def)

subsection \<open>Registered and declared names\<close>

text \<open>
  Claim C9, as amended. In every state reached from construction by a sequence of
  \<^verbatim>\<open>initialize\<close>, \<^verbatim>\<open>get_info\<close> and \<^verbatim>\<open>get_commands\<close> calls that contains \<^verbatim>\<open>initialize\<close>, the
  names registered in the plugin's mapping are the names the descriptor declares.
\<close>

theorem names_match_after_initialize:
  assumes "Initialize \<in> set cs"
  shows "registered_names (run cs (Plugin_init h0)) = declared_names (run cs (Plugin_init h0))"
  using assms
  by (simp add: registered_names_def declared_names_def registry_run get_info_def)

theorem names_match_after_initialize_witness:
  "registered_names (run [GetCommands, Initialize, GetInfo, GetCommands] (Plugin_init [])) =
     declared_names (run [GetCommands, Initialize, GetInfo, GetCommands] (Plugin_init []))"
  by (rule names_match_after_initialize) simp

text \<open>
  Claim C9 as stated fails in the state right after construction: nothing is
  registered there, and the descriptor declares both names.
\<close>

theorem names_differ_before_initialize:
  "registered_names (run [] (Plugin_init [])) = {}
   \<and> declared_names (run [] (Plugin_init [])) = {''greet'', ''count''}
   \<and> registered_names (run [] (Plugin_init [])) \<noteq> declared_names (run [] (Plugin_init []))"
  by (simp add: registered_names_def declared_names_def registry_of_def run_def
        Plugin_init_def get_info_def)

end
